theory Spec2Isabelle
  imports Complex_Main
begin

section \<open>Diversity reward model (prompting/validators/reward/diversity.py)\<close>

text \<open>
  An embedding is a row of a float tensor. Floating-point numbers are modelled as
  real numbers: rounding, infinities and NaN are outside the model. A two-dimensional
  tensor is the list of its rows; every row of one tensor has the same length.
\<close>

type_synonym vec = "real list"

text \<open>The exceptions the scoring code can raise.\<close>

datatype error =
    IndexError      \<comment> \<open>indexing position 0 or -1 of an empty dimension\<close>
  | RuntimeError    \<comment> \<open>\<^verbatim>\<open>torch.topk\<close> with k larger than the dimension\<close>
  | EmbedderError   \<comment> \<open>the tokenizer or the embedding model failed\<close>

subsection \<open>Data\<close>

text \<open>
  \<^verbatim>\<open>DiversityRewardEvent\<close>: the \<^verbatim>\<open>reward\<close> field of the base event and the two
  fields the dataclass adds, both defaulting to \<^verbatim>\<open>None\<close>.
\<close>

record DiversityRewardEvent =
  reward :: real
  historic :: "real option"
  batch :: "real option"

text \<open>
  The attributes of \<^verbatim>\<open>DiversityRewardModel\<close> that the scoring code reads or writes.
  The tokenizer and the embedding model are the parameter \<open>get_embeddings\<close> of
  \<open>get_rewards\<close> below.
\<close>

record DiversityRewardModel =
  reward_bottom_k :: nat
  history_reward_bottom_k :: nat
  historic_embeddings :: "vec list"
  history_range :: "nat \<times> nat"
  boundary :: real

text \<open>The state \<^verbatim>\<open>__init__\<close> builds.\<close>

definition init :: DiversityRewardModel where
  "init = \<lparr> reward_bottom_k = 2, history_reward_bottom_k = 2, historic_embeddings = [],
            history_range = (500, 15500), boundary = 0.5 \<rparr>"

subsection \<open>Tensor primitives\<close>

text \<open>Python's \<^verbatim>\<open>xs[-n:]\<close> for \<open>n \<ge> 0\<close>: the last \<open>n\<close> rows, and all of them when \<open>n = 0\<close>.\<close>

definition slice_last :: "nat \<Rightarrow> 'a list \<Rightarrow> 'a list" where
  "slice_last n xs = (if n = 0 then xs else drop (length xs - n) xs)"

text \<open>Python's \<^verbatim>\<open>xs[n:]\<close> for \<open>n \<ge> 0\<close>.\<close>

definition slice_from :: "nat \<Rightarrow> 'a list \<Rightarrow> 'a list" where
  "slice_from n xs = drop n xs"

definition dot :: "vec \<Rightarrow> vec \<Rightarrow> real" where
  "dot x y = sum_list (map2 (*) x y)"

definition norm2 :: "vec \<Rightarrow> real" where
  "norm2 x = sqrt (dot x x)"

text \<open>
  \<^verbatim>\<open>torchmetrics.functional.pairwise_cosine_similarity(x, y)\<close> with both arguments given
  (so the diagonal is not zeroed): every row of \<open>x\<close> and of \<open>y\<close> is divided by its
  L2 norm, and entry \<open>(i, j)\<close> is the dot product of the scaled rows \<open>i\<close> of \<open>x\<close> and
  \<open>j\<close> of \<open>y\<close>. A row of norm 0 gives NaN in the library and is outside the model; the
  embedder returns rows of norm 1.
\<close>

definition scale_row :: "vec \<Rightarrow> vec" where
  "scale_row x = map (\<lambda>a. a / norm2 x) x"

definition pairwise_cosine_similarity :: "vec list \<Rightarrow> vec list \<Rightarrow> real list list" where
  "pairwise_cosine_similarity x y =
     map (\<lambda>xi. map (\<lambda>yj. dot (scale_row xi) (scale_row yj)) y) x"

text \<open>
  \<^verbatim>\<open>torch.topk(t, k, largest=False)[0][:, -1]\<close>: the \<open>k\<close> smallest entries of each row in
  ascending order, then the last of them. \<^verbatim>\<open>topk\<close> raises when a row has fewer than \<open>k\<close>
  entries; the index \<open>-1\<close> raises when \<open>k = 0\<close>.
\<close>

definition topk_smallest_last :: "real list list \<Rightarrow> nat \<Rightarrow> error + real list" where
  "topk_smallest_last t k =
     (if list_ex (\<lambda>row. length row < k) t then Inl RuntimeError
      else if k = 0 then Inl IndexError
      else Inr (map (\<lambda>row. last (take k (sort row))) t))"

text \<open>\<^verbatim>\<open>1 - torch.abs(similarity)\<close>, entry by entry.\<close>

definition dissimilarity :: "real list list \<Rightarrow> real list list" where
  "dissimilarity similarity = map (map (\<lambda>s. 1 - \<bar>s\<bar>)) similarity"

subsection \<open>update_historic_embeddings\<close>

text \<open>
  The loop of the local function \<^verbatim>\<open>unique\<close>: \<open>last_emb\<close> is the previous row, and a row
  is kept when \<^verbatim>\<open>torch.all(torch.eq(emb, last_emb))\<close> is false. Rows of one tensor have
  the same length, so the test is equality of the rows.
\<close>

fun unique_loop :: "vec list \<Rightarrow> vec \<Rightarrow> vec list \<Rightarrow> vec list" where
  "unique_loop [] last_emb unique_embeddings = unique_embeddings"
| "unique_loop (emb # rest) last_emb unique_embeddings =
     unique_loop rest emb
       (if emb \<noteq> last_emb then unique_embeddings @ [emb] else unique_embeddings)"

definition unique :: "vec list \<Rightarrow> error + vec list" where
  "unique embeddings =
     (case embeddings of
        [] \<Rightarrow> Inl IndexError
      | e0 # _ \<Rightarrow> Inr (unique_loop embeddings e0 [e0]))"

definition update_historic_embeddings ::
  "DiversityRewardModel \<Rightarrow> vec list \<Rightarrow> error + DiversityRewardModel" where
  "update_historic_embeddings self embeddings =
     (case unique embeddings of
        Inl e \<Rightarrow> Inl e
      | Inr embeddings_unique \<Rightarrow>
          Inr (self\<lparr>historic_embeddings :=
                 slice_last (snd (history_range self))
                   (historic_embeddings self @ embeddings_unique)\<rparr>))"

subsection \<open>get_historic_rewards and get_batch_rewards\<close>

definition regularise_historic :: "real \<Rightarrow> real" where
  "regularise_historic r = 1 / (1 + exp (- 1000 * r + 50))"

definition regularise_batch :: "real \<Rightarrow> real" where
  "regularise_batch r = 1 / (1 + exp (- 40 * r + 4))"

definition get_historic_rewards ::
  "DiversityRewardModel \<Rightarrow> vec list \<Rightarrow> error + real list option" where
  "get_historic_rewards self embeddings =
     (if length (historic_embeddings self)
           < fst (history_range self) + history_reward_bottom_k self
      then Inr None
      else
        let similarity = pairwise_cosine_similarity embeddings
                           (slice_from (fst (history_range self)) (historic_embeddings self));
            bottom_k = min (history_reward_bottom_k self) (length similarity)
        in case topk_smallest_last (dissimilarity similarity) bottom_k of
             Inl e \<Rightarrow> Inl e
           | Inr rewards \<Rightarrow> Inr (Some (map regularise_historic rewards)))"

definition get_batch_rewards :: "DiversityRewardModel \<Rightarrow> vec list \<Rightarrow> error + real list" where
  "get_batch_rewards self embeddings =
     (let similarity = pairwise_cosine_similarity embeddings embeddings;
          bottom_k = min (reward_bottom_k self) (length similarity)
      in case topk_smallest_last (dissimilarity similarity) bottom_k of
           Inl e \<Rightarrow> Inl e
         | Inr rewards \<Rightarrow> Inr (map regularise_batch rewards))"

subsection \<open>get_rewards and normalize_rewards\<close>

text \<open>
  What \<^verbatim>\<open>get_rewards\<close> returns: the list of reward events, or, on the early return for
  an empty completions list, the pair of an empty tensor and \<^verbatim>\<open>None\<close>.
\<close>

datatype rewards_result =
    RewardEvents "DiversityRewardEvent list"
  | EmptyTensorAndNone

text \<open>
  \<open>get_embeddings\<close> stands for the method of that name (tokenizer, model, mean pooling
  and normalisation). The result carries the state after the call; an exception is
  raised before \<^verbatim>\<open>self.historic_embeddings\<close> is assigned, so it leaves the state as
  it was.
\<close>

definition get_rewards ::
  "(string list \<Rightarrow> error + vec list) \<Rightarrow> DiversityRewardModel \<Rightarrow> string \<Rightarrow> string list
     \<Rightarrow> string \<Rightarrow> error + (rewards_result \<times> DiversityRewardModel)" where
  "get_rewards get_embeddings self prompt completions name =
     (if length completions = 0 then Inr (EmptyTensorAndNone, self)
      else
        case get_embeddings completions of
          Inl e \<Rightarrow> Inl e
        | Inr embeddings \<Rightarrow>
           (case get_batch_rewards self embeddings of
              Inl e \<Rightarrow> Inl e
            | Inr batch_rewards \<Rightarrow>
               (case get_historic_rewards self embeddings of
                  Inl e \<Rightarrow> Inl e
                | Inr historic_rewards \<Rightarrow>
                   (case update_historic_embeddings self embeddings of
                      Inl e \<Rightarrow> Inl e
                    | Inr self' \<Rightarrow>
                        Inr (RewardEvents
                               (case historic_rewards of
                                  Some hs \<Rightarrow>
                                    map (\<lambda>(b, h).
                                           \<lparr> reward = b * h, historic = Some h, batch = Some b \<rparr>)
                                      (zip batch_rewards hs)
                                | None \<Rightarrow>
                                    map (\<lambda>b. \<lparr> reward = b, historic = None, batch = Some b \<rparr>)
                                      batch_rewards),
                             self')))))"

definition normalize_rewards :: "DiversityRewardModel \<Rightarrow> real list \<Rightarrow> real list" where
  "normalize_rewards self raw_rewards =
     map (\<lambda>r. if r > boundary self then 1 else 0) raw_rewards"

subsection \<open>Sequences of appends and the specification's wording\<close>

text \<open>
  Appending one batch after another, as successive scoring requests do; the first
  exception stops the sequence.
\<close>

fun append_all :: "DiversityRewardModel \<Rightarrow> vec list list \<Rightarrow> error + DiversityRewardModel" where
  "append_all self [] = Inr self"
| "append_all self (embeddings # rest) =
     (case update_historic_embeddings self embeddings of
        Inl e \<Rightarrow> Inl e
      | Inr self' \<Rightarrow> append_all self' rest)"

text \<open>
  The specification's bottom-k dissimilarity, in its own words: for each row take
  \<open>1 - |similarity|\<close> across all columns, sort ascending and take the value at rank
  \<open>k - 1\<close>, where \<open>k\<close> is the smaller of the configured rank and the number of columns.
\<close>

definition spec_bottom_k_dissimilarity :: "nat \<Rightarrow> real list list \<Rightarrow> real list" where
  "spec_bottom_k_dissimilarity k sim_matrix =
     map (\<lambda>row. sort (map (\<lambda>s. 1 - \<bar>s\<bar>) row) ! (min k (length row) - 1)) sim_matrix"

text \<open>
  The specification's comparison window, in its own words: the history without its most
  recent \<open>skip\<close> entries. New entries are appended at the end of the store.
\<close>

definition spec_historic_window :: "nat \<Rightarrow> vec list \<Rightarrow> vec list" where
  "spec_historic_window skip history = take (length history - skip) history"

section \<open>Auxiliary facts\<close>

subsection \<open>Deduplication and truncation\<close>

lemma unique_loop_eq:
  "unique_loop xs l acc = acc @ tl (remdups_adj (l # xs))"
proof (induction xs arbitrary: l acc)
  case Nil show ?case by simp
next
  case (Cons x xs)
  have "remdups_adj (x # xs) = x # tl (remdups_adj (x # xs))"
    by (cases xs) auto
  then show ?case using Cons.IH by auto
qed

lemma unique_remdups_adj: "xs \<noteq> [] \<Longrightarrow> unique xs = Inr (remdups_adj xs)"
  by (cases xs) (auto simp: unique_def unique_loop_eq)

lemma update_eq:
  "embeddings \<noteq> [] \<Longrightarrow> update_historic_embeddings self embeddings =
     Inr (self\<lparr>historic_embeddings := slice_last (snd (history_range self))
            (historic_embeddings self @ remdups_adj embeddings)\<rparr>)"
  by (simp add: update_historic_embeddings_def unique_remdups_adj)

lemma slice_last_length: "0 < n \<Longrightarrow> length (slice_last n xs) \<le> n"
  by (simp add: slice_last_def)

lemma slice_last_absorb:
  "0 < n \<Longrightarrow> slice_last n (slice_last n xs @ ys) = slice_last n (xs @ ys)"
proof (cases "length xs \<le> n")
  case True
  then show ?thesis by (simp add: slice_last_def)
next
  case False
  assume "0 < n"
  with False have "length xs + length ys - (length xs - n + n) + (length xs - n)
      = length xs + length ys - n" by arith
  with False \<open>0 < n\<close> show ?thesis by (simp add: slice_last_def)
qed

lemma slice_last_id: "length xs \<le> n \<Longrightarrow> slice_last n xs = xs"
  by (simp add: slice_last_def)

lemma append_all_eq:
  "0 < snd (history_range self) \<Longrightarrow> \<forall>b\<in>set batches. b \<noteq> [] \<Longrightarrow>
   length (historic_embeddings self) \<le> snd (history_range self) \<Longrightarrow>
   append_all self batches =
     Inr (self\<lparr>historic_embeddings := slice_last (snd (history_range self))
            (historic_embeddings self @ concat (map remdups_adj batches))\<rparr>)"
proof (induction batches arbitrary: self)
  case Nil then show ?case by (simp add: slice_last_id)
next
  case (Cons b bs)
  let ?s = "self\<lparr>historic_embeddings := slice_last (snd (history_range self))
            (historic_embeddings self @ remdups_adj b)\<rparr>"
  have u: "update_historic_embeddings self b = Inr ?s" using Cons.prems by (simp add: update_eq)
  have "append_all ?s bs = Inr (?s\<lparr>historic_embeddings := slice_last (snd (history_range ?s))
            (historic_embeddings ?s @ concat (map remdups_adj bs))\<rparr>)"
    using Cons.prems by (intro Cons.IH) (simp_all add: slice_last_length)
  then show ?case using u Cons.prems(1) by (simp add: slice_last_absorb)
qed

subsection \<open>Similarity matrices and rank selection\<close>

lemma pcs_length: "length (pairwise_cosine_similarity x y) = length x"
  by (simp add: pairwise_cosine_similarity_def)

lemma pcs_row_length: "row \<in> set (dissimilarity (pairwise_cosine_similarity x y)) \<Longrightarrow> length row = length y"
  by (auto simp: pairwise_cosine_similarity_def dissimilarity_def)

lemma topk_ok:
  "0 < k \<Longrightarrow> k \<le> length y \<Longrightarrow>
   topk_smallest_last (dissimilarity (pairwise_cosine_similarity x y)) k =
     Inr (map (\<lambda>row. last (take k (sort row))) (dissimilarity (pairwise_cosine_similarity x y)))"
  by (auto simp: topk_smallest_last_def list_ex_iff pcs_row_length)

lemma kth_smallest: "0 < k \<Longrightarrow> k \<le> length row \<Longrightarrow> last (take k (sort row)) = sort row ! (k - 1)"
proof -
  assume k: "0 < k" "k \<le> length row"
  then have "length (take k (sort row)) = k" by simp
  with k have "take k (sort row) \<noteq> []" by (metis length_0_conv less_numeral_extra(3))
  then have "last (take k (sort row)) = take k (sort row) ! (length (take k (sort row)) - 1)"
    by (rule last_conv_nth)
  also have "\<dots> = sort row ! (k - 1)" using k by (simp add: min_absorb2)
  finally show ?thesis .
qed

lemma dissim_length: "length (dissimilarity m) = length m"
  by (simp add: dissimilarity_def)

lemma topk_length: "topk_smallest_last t k = Inr rs \<Longrightarrow> length rs = length t"
  by (auto simp: topk_smallest_last_def split: if_splits)

lemma batch_rewards_length:
  "get_batch_rewards self embeddings = Inr bs \<Longrightarrow> length bs = length embeddings"
  by (auto simp: get_batch_rewards_def Let_def pcs_length dissim_length
      split: sum.splits dest!: topk_length)

lemma historic_rewards_length:
  "get_historic_rewards self embeddings = Inr (Some hs) \<Longrightarrow> length hs = length embeddings"
  by (auto simp: get_historic_rewards_def Let_def pcs_length dissim_length
      split: sum.splits if_splits dest!: topk_length)

lemma historic_rewards_none_iff:
  "get_historic_rewards self embeddings = Inr None \<longleftrightarrow>
     length (historic_embeddings self) < fst (history_range self) + history_reward_bottom_k self"
  by (auto simp: get_historic_rewards_def Let_def split: sum.splits)

lemma batch_rewards_eq:
  assumes "embeddings \<noteq> []" and "0 < reward_bottom_k self"
  shows "get_batch_rewards self embeddings =
     Inr (map regularise_batch
           (map (\<lambda>row. last (take (min (reward_bottom_k self) (length embeddings)) (sort row)))
              (dissimilarity (pairwise_cosine_similarity embeddings embeddings))))"
proof -
  let ?k = "min (reward_bottom_k self) (length embeddings)"
  have "0 < ?k" "?k \<le> length embeddings" using assms by auto
  then show ?thesis
    by (simp only: get_batch_rewards_def Let_def pcs_length topk_ok sum.case)
qed

lemma historic_rewards_eq:
  assumes "embeddings \<noteq> []" and "0 < history_reward_bottom_k self"
      and "fst (history_range self) + history_reward_bottom_k self
             \<le> length (historic_embeddings self)"
  shows "get_historic_rewards self embeddings =
     Inr (Some (map regularise_historic
           (map (\<lambda>row. last (take (min (history_reward_bottom_k self) (length embeddings))
                                (sort row)))
              (dissimilarity (pairwise_cosine_similarity embeddings
                 (slice_from (fst (history_range self)) (historic_embeddings self)))))))"
proof -
  let ?k = "min (history_reward_bottom_k self) (length embeddings)"
  let ?w = "slice_from (fst (history_range self)) (historic_embeddings self)"
  have "0 < ?k" "?k \<le> length ?w" using assms by (auto simp: slice_from_def)
  then have "topk_smallest_last (dissimilarity (pairwise_cosine_similarity embeddings ?w)) ?k =
     Inr (map (\<lambda>row. last (take ?k (sort row)))
            (dissimilarity (pairwise_cosine_similarity embeddings ?w)))"
    by (rule topk_ok)
  moreover have "\<not> length (historic_embeddings self)
           < fst (history_range self) + history_reward_bottom_k self"
    using assms(3) by simp
  ultimately show ?thesis
    by (simp only: get_historic_rewards_def Let_def pcs_length if_False sum.case)
qed

lemma single_row:
  assumes "i < length x"
  shows "dissimilarity (pairwise_cosine_similarity [x ! i] y) =
           [dissimilarity (pairwise_cosine_similarity x y) ! i]"
  using assms by (simp add: dissimilarity_def pairwise_cosine_similarity_def)

lemma topk_single_row:
  assumes "i < length x" and "0 < k" and "k \<le> length y"
  shows "topk_smallest_last (dissimilarity (pairwise_cosine_similarity [x ! i] y)) k =
           Inr [last (take k (sort (dissimilarity (pairwise_cosine_similarity x y) ! i)))]"
proof -
  have "topk_smallest_last (dissimilarity (pairwise_cosine_similarity [x ! i] y)) k =
     Inr (map (\<lambda>row. last (take k (sort row)))
            (dissimilarity (pairwise_cosine_similarity [x ! i] y)))"
    using assms(2,3) by (rule topk_ok)
  then show ?thesis by (simp add: single_row [OF assms(1)])
qed

text \<open>
  Where the batch and the history window have at least as many rows as the configured
  rank, the code computes the bottom-k dissimilarity in the specification's wording.
\<close>

lemma batch_rewards_spec:
  assumes "embeddings \<noteq> []" and "0 < reward_bottom_k self"
  shows "get_batch_rewards self embeddings =
     Inr (map regularise_batch
           (spec_bottom_k_dissimilarity (reward_bottom_k self)
              (pairwise_cosine_similarity embeddings embeddings)))"
proof -
  let ?k = "min (reward_bottom_k self) (length embeddings)"
  have k: "0 < ?k" "?k \<le> length embeddings" using assms by auto
  have "map (\<lambda>row. last (take ?k (sort row)))
          (dissimilarity (pairwise_cosine_similarity embeddings embeddings))
      = spec_bottom_k_dissimilarity (reward_bottom_k self)
              (pairwise_cosine_similarity embeddings embeddings)"
    using k by (simp add: spec_bottom_k_dissimilarity_def dissimilarity_def
        pairwise_cosine_similarity_def kth_smallest)
  then show ?thesis by (simp only: batch_rewards_eq [OF assms])
qed

lemma historic_rewards_spec:
  assumes "history_reward_bottom_k self \<le> length embeddings"
      and "0 < history_reward_bottom_k self"
      and "fst (history_range self) + history_reward_bottom_k self
             \<le> length (historic_embeddings self)"
  shows "get_historic_rewards self embeddings =
     Inr (Some (map regularise_historic
           (spec_bottom_k_dissimilarity (history_reward_bottom_k self)
              (pairwise_cosine_similarity embeddings
                 (slice_from (fst (history_range self)) (historic_embeddings self))))))"
proof -
  let ?w = "slice_from (fst (history_range self)) (historic_embeddings self)"
  have ne: "embeddings \<noteq> []" using assms(1,2) by auto
  have k: "min (history_reward_bottom_k self) (length embeddings) = history_reward_bottom_k self"
     "history_reward_bottom_k self \<le> length ?w"
    using assms by (auto simp: slice_from_def)
  have "map (\<lambda>row. last (take (history_reward_bottom_k self) (sort row)))
          (dissimilarity (pairwise_cosine_similarity embeddings ?w))
      = spec_bottom_k_dissimilarity (history_reward_bottom_k self)
              (pairwise_cosine_similarity embeddings ?w)"
    using k(2) assms(2) by (simp add: spec_bottom_k_dissimilarity_def dissimilarity_def
        pairwise_cosine_similarity_def kth_smallest min_absorb1)
  then show ?thesis by (simp only: historic_rewards_eq [OF ne assms(2,3)] k(1))
qed

subsection \<open>The scoring request\<close>

lemma get_rewards_events:
  assumes "completions \<noteq> []" and "get_embeddings completions = Inr embeddings"
      and "embeddings \<noteq> []"
      and "get_batch_rewards self embeddings = Inr batch_rewards"
      and "get_historic_rewards self embeddings = Inr historic_rewards"
  shows "get_rewards get_embeddings self prompt completions name =
     Inr (RewardEvents
            (case historic_rewards of
               Some hs \<Rightarrow>
                 map (\<lambda>(b, h). \<lparr> reward = b * h, historic = Some h, batch = Some b \<rparr>)
                   (zip batch_rewards hs)
             | None \<Rightarrow>
                 map (\<lambda>b. \<lparr> reward = b, historic = None, batch = Some b \<rparr>) batch_rewards),
          self\<lparr>historic_embeddings :=
                 slice_last (snd (history_range self))
                   (historic_embeddings self @ remdups_adj embeddings)\<rparr>)"
  using assms by (simp add: get_rewards_def update_eq)

text \<open>The definitions a concrete scoring request unfolds to.\<close>

lemmas eval_defs = get_rewards_def get_historic_rewards_def update_historic_embeddings_def unique_def
     slice_last_def slice_from_def get_batch_rewards_def init_def pairwise_cosine_similarity_def scale_row_def
      norm2_def dot_def dissimilarity_def topk_smallest_last_def regularise_batch_def regularise_historic_def

section \<open>Properties of the specification\<close>

text \<open>
  C1, as stated, does not hold. The two histories below have 502 entries and differ only
  in their two most recent entries, so the history without its most recent 500 entries is
  the same for both; yet the historic reward of the same batch differs. The code compares
  against the entries from index 500 on, which here are exactly the two most recent ones.
\<close>

theorem historic_window_counterexample:
  "spec_historic_window (fst (history_range init)) (replicate 500 [1, 0] @ [[1, 0], [1, 0]])
     = spec_historic_window (fst (history_range init)) (replicate 500 [1, 0] @ [[0, 1], [0, 1]])
   \<and> get_historic_rewards
        (init\<lparr>historic_embeddings := replicate 500 [1, 0] @ [[1, 0], [1, 0]]\<rparr>) [[0, 1]]
       = Inr (Some [regularise_historic 1])
   \<and> get_historic_rewards
        (init\<lparr>historic_embeddings := replicate 500 [1, 0] @ [[0, 1], [0, 1]]\<rparr>) [[0, 1]]
       = Inr (Some [regularise_historic 0])
   \<and> regularise_historic 1 \<noteq> regularise_historic 0"
  by (simp add: eval_defs spec_historic_window_def)

text \<open>
  C1 (amended). When the historic reward is present, the similarity is computed between
  the batch and the history without its oldest skip-offset (500 by default) entries: the
  entries from index skip-offset to the end of the store. The window ends with the most
  recently appended entry, and the reward is what the rank selection and the regulariser
  give on that window.
\<close>

theorem historic_window_drops_oldest:
  assumes "historic_embeddings self = oldest @ rest"
      and "length oldest = fst (history_range self)"
      and "history_reward_bottom_k self \<le> length rest"
  shows "slice_from (fst (history_range self)) (historic_embeddings self) = rest
       \<and> (rest \<noteq> [] \<longrightarrow> last (historic_embeddings self) \<in> set rest)
       \<and> get_historic_rewards self embeddings =
           (case topk_smallest_last (dissimilarity (pairwise_cosine_similarity embeddings rest))
                   (min (history_reward_bottom_k self) (length embeddings)) of
              Inl e \<Rightarrow> Inl e
            | Inr rewards \<Rightarrow> Inr (Some (map regularise_historic rewards)))"
proof -
  have w: "slice_from (fst (history_range self)) (historic_embeddings self) = rest"
    using assms(1,2) by (simp add: slice_from_def)
  have "\<not> length (historic_embeddings self)
           < fst (history_range self) + history_reward_bottom_k self"
    using assms by simp
  then have "get_historic_rewards self embeddings =
           (case topk_smallest_last (dissimilarity (pairwise_cosine_similarity embeddings rest))
                   (min (history_reward_bottom_k self) (length embeddings)) of
              Inl e \<Rightarrow> Inl e
            | Inr rewards \<Rightarrow> Inr (Some (map regularise_historic rewards)))"
    by (simp add: get_historic_rewards_def Let_def w pcs_length)
  with w assms(1) show ?thesis by simp
qed

theorem historic_window_drops_oldest_witness:
  "historic_embeddings (init\<lparr>historic_embeddings := replicate 500 [1, 0] @ [[0, 1], [0, 1]]\<rparr>)
     = replicate 500 [1, 0] @ [[0, 1], [0, 1]]
   \<and> length (replicate 500 [1, 0 :: real]) = fst (history_range init)
   \<and> history_reward_bottom_k init \<le> length [[0, 1], [0, 1 :: real]]
   \<and> last (replicate 500 [1, 0] @ [[0, 1], [0, 1 :: real]]) \<in> set [[0, 1], [0, 1]]
   \<and> get_historic_rewards
        (init\<lparr>historic_embeddings := replicate 500 [1, 0] @ [[0, 1], [0, 1]]\<rparr>) [[0, 1]]
       = Inr (Some [1 / (1 + exp 50)])"
  using historic_window_drops_oldest [of
      "init\<lparr>historic_embeddings := replicate 500 [1, 0] @ [[0, 1], [0, 1]]\<rparr>"
      "replicate 500 [1, 0]" "[[0, 1], [0, 1]]" "[[0, 1]]"]
  by (simp add: eval_defs)

text \<open>
  C2 (code defect). The rank is clamped with \<^verbatim>\<open>len(similarity)\<close>, the number of rows of the
  matrix (the batch size), not its number of columns. For the square batch matrix the two
  agree. On the historic path they differ: for one completion against a window of two
  entries the code takes rank \<open>min 2 1 = 1\<close> and scores the smallest dissimilarity 0, while
  the rank clamped to the two columns is 2 and selects the second smallest, 1.
\<close>

theorem historic_rank_clamped_to_rows:
  "get_historic_rewards
     (init\<lparr>historic_embeddings := replicate 500 [1, 0] @ [[1, 0], [0, 1]]\<rparr>) [[1, 0]]
     = Inr (Some [regularise_historic 0])
   \<and> pairwise_cosine_similarity [[1, 0]]
        (slice_from (fst (history_range init)) (replicate 500 [1, 0] @ [[1, 0], [0, 1]]))
     = [[1, 0]]
   \<and> map regularise_historic
        (spec_bottom_k_dissimilarity (history_reward_bottom_k init) [[1, 0]])
     = [regularise_historic 1]
   \<and> regularise_historic 0 \<noteq> regularise_historic 1"
  by (simp add: eval_defs spec_bottom_k_dissimilarity_def)

text \<open>
  C3. For a non-empty batch that the embedder maps to one embedding per completion, with
  positive ranks, both reward computations and the request succeed, and the record of each
  completion \<open>i\<close> has the batch component \<open>batch[i]\<close>, and either no historic component and
  the reward \<open>batch[i]\<close> (historic rewards absent), or the historic component
  \<open>historic[i]\<close> and the reward \<open>batch[i] * historic[i]\<close>.
\<close>

theorem reward_event_components:
  assumes "completions \<noteq> []" and "get_embeddings completions = Inr embeddings"
      and "length embeddings = length completions"
      and "0 < reward_bottom_k self" and "0 < history_reward_bottom_k self"
  shows "\<exists>batch_rewards historic_rewards evs self'.
           get_batch_rewards self embeddings = Inr batch_rewards
         \<and> get_historic_rewards self embeddings = Inr historic_rewards
         \<and> get_rewards get_embeddings self prompt completions name = Inr (RewardEvents evs, self')
         \<and> (\<forall>i < length completions.
               batch (evs ! i) = Some (batch_rewards ! i)
             \<and> (case historic_rewards of
                  None \<Rightarrow> reward (evs ! i) = batch_rewards ! i \<and> historic (evs ! i) = None
                | Some hs \<Rightarrow> reward (evs ! i) = batch_rewards ! i * hs ! i
                             \<and> historic (evs ! i) = Some (hs ! i)))"
proof -
  have ne: "embeddings \<noteq> []" using assms(1,3) by auto
  obtain bs where bs: "get_batch_rewards self embeddings = Inr bs"
    using batch_rewards_eq [OF ne assms(4)] by blast
  have lbs: "length bs = length completions"
    using batch_rewards_length [OF bs] assms(3) by simp
  obtain hr where hr: "get_historic_rewards self embeddings = Inr hr"
  proof (cases "length (historic_embeddings self)
                  < fst (history_range self) + history_reward_bottom_k self")
    case True
    then have "get_historic_rewards self embeddings = Inr None"
      by (simp add: historic_rewards_none_iff)
    then show ?thesis by (rule that)
  next
    case False
    then have "fst (history_range self) + history_reward_bottom_k self
                 \<le> length (historic_embeddings self)" by simp
    from historic_rewards_eq [OF ne assms(5) this] show ?thesis by (rule that)
  qed
  note ev = get_rewards_events [where get_embeddings = get_embeddings
      and completions = completions and prompt = prompt and name = name,
      OF assms(1,2) ne bs hr]
  show ?thesis
  proof (cases hr)
    case None
    with ev bs hr lbs show ?thesis by (intro exI [of _ bs] exI [of _ hr]) simp
  next
    case (Some hs)
    then have "length hs = length completions"
      using historic_rewards_length [of self embeddings hs] hr assms(3) by simp
    with Some ev bs hr lbs show ?thesis by (intro exI [of _ bs] exI [of _ hr]) simp
  qed
qed

theorem reward_event_components_witness:
  "[''a''] \<noteq> []
   \<and> (\<lambda>sentences. Inr (map (\<lambda>s. [1, 0]) sentences)) [''a''] = (Inr [[1, 0]] :: error + vec list)
   \<and> length [[1, 0 :: real]] = length [''a'']
   \<and> 0 < reward_bottom_k init \<and> 0 < history_reward_bottom_k init
   \<and> get_rewards (\<lambda>sentences. Inr (map (\<lambda>s. [1, 0]) sentences))
         (init\<lparr>historic_embeddings := replicate 500 [1, 0] @ [[1, 0], [0, 1]]\<rparr>)
         ''p'' [''a''] ''n'' =
       Inr (RewardEvents
              [\<lparr> reward = 1 / (1 + exp 4) * (1 / (1 + exp 50)),
                 historic = Some (1 / (1 + exp 50)), batch = Some (1 / (1 + exp 4)) \<rparr>],
            init\<lparr>historic_embeddings := replicate 500 [1, 0] @ [[1, 0], [0, 1], [1, 0]]\<rparr>)"
  using reward_event_components [of "[''a'']" "\<lambda>sentences. Inr (map (\<lambda>s. [1, 0]) sentences)"
      "[[1, 0]]" "init\<lparr>historic_embeddings := replicate 500 [1, 0] @ [[1, 0], [0, 1]]\<rparr>" "''p''" "''n''"]
  by (simp add: eval_defs)

text \<open>
  C4. The historic rewards are absent exactly when the store holds fewer than
  minimum-history-size + history-bottom-k entries (500 + 2 by default) at scoring time;
  from that size on they are present, one per embedding. Absence is the value \<^verbatim>\<open>None\<close>, not
  a reward of zero, and every record of a request carries it exactly in that case.
\<close>

theorem historic_component_present_iff:
  "(get_historic_rewards self embeddings = Inr None \<longleftrightarrow>
      length (historic_embeddings self) < fst (history_range self) + history_reward_bottom_k self)
   \<and> (embeddings \<noteq> [] \<and> 0 < history_reward_bottom_k self
        \<and> fst (history_range self) + history_reward_bottom_k self \<le> length (historic_embeddings self)
      \<longrightarrow> (\<exists>hs. get_historic_rewards self embeddings = Inr (Some hs)
                \<and> length hs = length embeddings))
   \<and> (get_rewards get_embeddings self prompt completions name = Inr (RewardEvents evs, self')
      \<longrightarrow> (\<forall>ev \<in> set evs.
             (historic ev = None) =
             (length (historic_embeddings self)
                < fst (history_range self) + history_reward_bottom_k self)))"
proof (intro conjI impI)
  show "get_historic_rewards self embeddings = Inr None \<longleftrightarrow>
      length (historic_embeddings self) < fst (history_range self) + history_reward_bottom_k self"
    by (rule historic_rewards_none_iff)
next
  assume a: "embeddings \<noteq> [] \<and> 0 < history_reward_bottom_k self
        \<and> fst (history_range self) + history_reward_bottom_k self \<le> length (historic_embeddings self)"
  then obtain hs where hs: "get_historic_rewards self embeddings = Inr (Some hs)"
    using historic_rewards_eq [of embeddings self] by blast
  with historic_rewards_length [OF hs]
  show "\<exists>hs. get_historic_rewards self embeddings = Inr (Some hs) \<and> length hs = length embeddings"
    by blast
next
  assume g: "get_rewards get_embeddings self prompt completions name = Inr (RewardEvents evs, self')"
  let ?small = "length (historic_embeddings self)
                < fst (history_range self) + history_reward_bottom_k self"
  from g obtain embeddings bs hr where
    hr: "get_historic_rewards self embeddings = Inr hr" and
    evs: "evs = (case hr of
               Some hs \<Rightarrow>
                 map (\<lambda>(b, h). \<lparr> reward = b * h, historic = Some h, batch = Some b \<rparr>)
                   (zip bs hs)
             | None \<Rightarrow>
                 map (\<lambda>b. \<lparr> reward = b, historic = None, batch = Some b \<rparr>) bs)"
    by (auto simp: get_rewards_def split: if_splits sum.splits)
  show "\<forall>ev \<in> set evs. (historic ev = None) = ?small"
  proof (cases hr)
    case None
    with hr have ?small by (simp add: historic_rewards_none_iff)
    with None evs show ?thesis by auto
  next
    case (Some hs)
    with hr have "get_historic_rewards self embeddings \<noteq> Inr None" by simp
    then have "\<not> ?small" using historic_rewards_none_iff [of self embeddings] by blast
    with Some evs show ?thesis by auto
  qed
qed

theorem historic_component_present_iff_witness:
  "fst (history_range init) + history_reward_bottom_k init = 502
   \<and> get_historic_rewards (init\<lparr>historic_embeddings := replicate 501 [1, 0]\<rparr>) [[1, 0]] = Inr None
   \<and> [[1, 0 :: real]] \<noteq> [] \<and> 0 < history_reward_bottom_k init
   \<and> (\<exists>hs. get_historic_rewards
              (init\<lparr>historic_embeddings := replicate 500 [1, 0] @ [[1, 0], [0, 1]]\<rparr>) [[1, 0]]
             = Inr (Some hs) \<and> length hs = 1)
   \<and> get_rewards (\<lambda>sentences. Inr (map (\<lambda>s. [1, 0]) sentences))
        (init\<lparr>historic_embeddings := replicate 501 [1, 0]\<rparr>) ''p'' [''a''] ''n'' =
       Inr (RewardEvents
              [\<lparr> reward = 1 / (1 + exp 4), historic = None, batch = Some (1 / (1 + exp 4)) \<rparr>],
            init\<lparr>historic_embeddings := replicate 501 [1, 0] @ [[1, 0]]\<rparr>)"
  using historic_component_present_iff [of "init\<lparr>historic_embeddings := replicate 501 [1, 0]\<rparr>"
          "[[1, 0]]" "\<lambda>sentences. Inr (map (\<lambda>s. [1, 0]) sentences)" "''p''" "[''a'']" "''n''"
          "[\<lparr> reward = 1 / (1 + exp 4), historic = None, batch = Some (1 / (1 + exp 4)) \<rparr>]"
          "init\<lparr>historic_embeddings := replicate 501 [1, 0] @ [[1, 0]]\<rparr>"]
        historic_component_present_iff [of
          "init\<lparr>historic_embeddings := replicate 500 [1, 0] @ [[1, 0], [0, 1]]\<rparr>" "[[1, 0]]"]
  by (simp add: eval_defs)

text \<open>
  C5 (code defect). For an empty completions list the specification promises an empty
  sequence of reward records. The early return of \<^verbatim>\<open>get_rewards\<close> gives the pair of an empty
  tensor and \<^verbatim>\<open>None\<close> instead, which is not the empty list of records that the declared
  result type \<^verbatim>\<open>List[DiversityRewardEvent]\<close> announces. It does so whatever the embedder is
  (the embedder is not consulted) and it returns the model with its history unchanged.
\<close>

theorem empty_completions_result:
  "get_rewards get_embeddings self prompt [] name = Inr (EmptyTensorAndNone, self)
   \<and> EmptyTensorAndNone \<noteq> RewardEvents []"
  by (simp add: get_rewards_def)

text \<open>
  C6. Appending any sequence of non-empty batches to a store that is within its capacity
  (a positive capacity; 15500 by default) succeeds and leaves the store within its
  capacity. The store then holds the old history followed by the deduplicated batches
  with exactly the oldest surplus entries removed from the front, so the retained entries
  keep their insertion order.
\<close>

theorem history_capacity_fifo:
  assumes "0 < snd (history_range self)"
      and "length (historic_embeddings self) \<le> snd (history_range self)"
      and "\<forall>b \<in> set batches. b \<noteq> []"
  shows "let appended = historic_embeddings self @ concat (map remdups_adj batches);
             retained = drop (length appended - snd (history_range self)) appended
         in append_all self batches = Inr (self\<lparr>historic_embeddings := retained\<rparr>)
            \<and> length retained \<le> snd (history_range self)"
  using assms append_all_eq [OF assms(1) assms(3) assms(2)]
  by (simp add: slice_last_def Let_def)

theorem history_capacity_fifo_witness:
  "0 < snd (history_range init)
   \<and> length (historic_embeddings (init\<lparr>historic_embeddings := replicate 15500 [1, 0]\<rparr>)) \<le> 15500
   \<and> list_all (\<lambda>b. b \<noteq> []) [[[0, 1], [0, 1]], [[1, 1 :: real]]]
   \<and> append_all (init\<lparr>historic_embeddings := replicate 15500 [1, 0]\<rparr>) [[[0, 1], [0, 1]], [[1, 1]]] =
       Inr (init\<lparr>historic_embeddings := replicate 15498 [1, 0] @ [[0, 1], [1, 1]]\<rparr>)"
  using history_capacity_fifo [of "init\<lparr>historic_embeddings := replicate 15500 [1, 0]\<rparr>"
          "[[[0, 1], [0, 1]], [[1, 1]]]"]
  by (simp add: init_def)

text \<open>
  C7. For a non-empty batch, \<^verbatim>\<open>unique\<close> returns the batch with every run of consecutive
  equal vectors collapsed to its first element: the first vector of the batch is kept and
  no two neighbours of the result are equal. The append concatenates that reduced batch to
  the history before truncating. A batch of \<open>n > 0\<close> copies of one vector \<open>v\<close> appends the
  single entry \<open>v\<close>.
\<close>

theorem append_collapses_runs:
  assumes "embeddings \<noteq> []" and "0 < n"
  shows "unique embeddings = Inr (remdups_adj embeddings)
       \<and> hd (remdups_adj embeddings) = hd embeddings
       \<and> distinct_adj (remdups_adj embeddings)
       \<and> update_historic_embeddings self embeddings =
           Inr (self\<lparr>historic_embeddings :=
                  slice_last (snd (history_range self))
                    (historic_embeddings self @ remdups_adj embeddings)\<rparr>)
       \<and> update_historic_embeddings self (replicate n v) =
           Inr (self\<lparr>historic_embeddings :=
                  slice_last (snd (history_range self)) (historic_embeddings self @ [v])\<rparr>)"
proof -
  have r: "replicate n v \<noteq> []" "remdups_adj (replicate n v) = [v]"
    using assms(2) by (simp_all add: remdups_adj_replicate)
  have "update_historic_embeddings self (replicate n v) =
           Inr (self\<lparr>historic_embeddings :=
                  slice_last (snd (history_range self)) (historic_embeddings self @ [v])\<rparr>)"
    using update_eq [OF r(1), of self] by (simp only: r(2))
  then show ?thesis
    using assms(1) by (simp add: unique_remdups_adj update_eq)
qed

theorem append_collapses_runs_witness:
  "[[1, 0], [1, 0], [0, 1], [1, 0 :: real]] \<noteq> [] \<and> (0::nat) < 3
   \<and> unique [[1, 0], [1, 0], [0, 1], [1, 0]] = Inr [[1, 0], [0, 1], [1, 0]]
   \<and> update_historic_embeddings init (replicate 3 [1, 0]) =
       Inr (init\<lparr>historic_embeddings := [[1, 0]]\<rparr>)"
  using append_collapses_runs [of "[[1, 0], [1, 0], [0, 1], [1, 0]]" 3 init "[1, 0]"]
  by (simp add: init_def slice_last_def)

text \<open>
  C8. For a non-empty completions list that the embedder maps to one embedding per
  completion, with positive ranks, the request returns exactly one record per completion,
  and record \<open>i\<close> belongs to completion \<open>i\<close>: its batch component is the regularised rank
  selection on the dissimilarities of embedding \<open>i\<close> against the batch, and its historic
  component, when present, the one of embedding \<open>i\<close> against the history window.
\<close>

theorem one_event_per_completion_in_order:
  assumes "completions \<noteq> []" and "get_embeddings completions = Inr embeddings"
      and "length embeddings = length completions"
      and "0 < reward_bottom_k self" and "0 < history_reward_bottom_k self"
  shows "\<exists>evs self'.
           get_rewards get_embeddings self prompt completions name = Inr (RewardEvents evs, self')
         \<and> length evs = length completions
         \<and> (\<forall>i < length completions.
               (\<exists>d. topk_smallest_last
                       (dissimilarity (pairwise_cosine_similarity [embeddings ! i] embeddings))
                       (min (reward_bottom_k self) (length embeddings)) = Inr [d]
                    \<and> batch (evs ! i) = Some (regularise_batch d))
             \<and> (case historic (evs ! i) of
                  None \<Rightarrow> length (historic_embeddings self)
                            < fst (history_range self) + history_reward_bottom_k self
                | Some h \<Rightarrow>
                    (\<exists>d. topk_smallest_last
                            (dissimilarity (pairwise_cosine_similarity [embeddings ! i]
                               (slice_from (fst (history_range self)) (historic_embeddings self))))
                            (min (history_reward_bottom_k self) (length embeddings)) = Inr [d]
                         \<and> h = regularise_historic d)))"
proof -
  let ?n = "length completions"
  let ?kb = "min (reward_bottom_k self) (length embeddings)"
  let ?kh = "min (history_reward_bottom_k self) (length embeddings)"
  let ?w = "slice_from (fst (history_range self)) (historic_embeddings self)"
  let ?db = "dissimilarity (pairwise_cosine_similarity embeddings embeddings)"
  let ?dh = "dissimilarity (pairwise_cosine_similarity embeddings ?w)"
  let ?bs = "map regularise_batch (map (\<lambda>row. last (take ?kb (sort row))) ?db)"
  have ne: "embeddings \<noteq> []" using assms(1,3) by auto
  have kb: "0 < ?kb" "?kb \<le> length embeddings" using ne assms(4) by auto
  have bs: "get_batch_rewards self embeddings = Inr ?bs"
    by (rule batch_rewards_eq [OF ne assms(4)])
  have lb: "length ?db = ?n" by (simp add: dissim_length pcs_length assms(3))
  have brow: "\<exists>d. topk_smallest_last
                 (dissimilarity (pairwise_cosine_similarity [embeddings ! i] embeddings)) ?kb = Inr [d]
               \<and> Some (?bs ! i) = Some (regularise_batch d)" if "i < ?n" for i
  proof -
    from that have i: "i < length embeddings" by (simp add: assms(3))
    from that lb show ?thesis by (simp add: topk_single_row [OF i kb])
  qed
  show ?thesis
  proof (cases "length (historic_embeddings self)
                  < fst (history_range self) + history_reward_bottom_k self")
    case True
    then have hr: "get_historic_rewards self embeddings = Inr None"
      by (simp add: historic_rewards_none_iff)
    note ev = get_rewards_events [where get_embeddings = get_embeddings
      and completions = completions and prompt = prompt and name = name,
      OF assms(1,2) ne bs hr]
    let ?evs = "map (\<lambda>b. \<lparr> reward = b, historic = None, batch = Some b \<rparr>) ?bs"
    have "\<forall>i < ?n. (\<exists>d. topk_smallest_last
                 (dissimilarity (pairwise_cosine_similarity [embeddings ! i] embeddings)) ?kb = Inr [d]
               \<and> batch (?evs ! i) = Some (regularise_batch d))
            \<and> historic (?evs ! i) = None"
      using brow lb by simp
    with True ev lb show ?thesis by (intro exI [of _ ?evs]) (simp del: nth_map)
  next
    case False
    then have big: "fst (history_range self) + history_reward_bottom_k self
                 \<le> length (historic_embeddings self)" by simp
    then have kh: "0 < ?kh" "?kh \<le> length ?w" using ne assms(5) by (auto simp: slice_from_def)
    let ?hs = "map regularise_historic (map (\<lambda>row. last (take ?kh (sort row))) ?dh)"
    have hr: "get_historic_rewards self embeddings = Inr (Some ?hs)"
      by (rule historic_rewards_eq [OF ne assms(5) big])
    have lh: "length ?dh = ?n" by (simp add: dissim_length pcs_length assms(3))
    note ev = get_rewards_events [where get_embeddings = get_embeddings
      and completions = completions and prompt = prompt and name = name,
      OF assms(1,2) ne bs hr]
    let ?evs = "map (\<lambda>(b, h). \<lparr> reward = b * h, historic = Some h, batch = Some b \<rparr>) (zip ?bs ?hs)"
    have hrow: "\<exists>d. topk_smallest_last
                 (dissimilarity (pairwise_cosine_similarity [embeddings ! i] ?w)) ?kh = Inr [d]
               \<and> ?hs ! i = regularise_historic d" if "i < ?n" for i
    proof -
      from that have i: "i < length embeddings" by (simp add: assms(3))
      from that lh show ?thesis by (simp add: topk_single_row [OF i kh])
    qed
    have "\<forall>i < ?n. (\<exists>d. topk_smallest_last
                 (dissimilarity (pairwise_cosine_similarity [embeddings ! i] embeddings)) ?kb = Inr [d]
               \<and> batch (?evs ! i) = Some (regularise_batch d))
            \<and> (\<exists>d. topk_smallest_last
                 (dissimilarity (pairwise_cosine_similarity [embeddings ! i] ?w)) ?kh = Inr [d]
               \<and> historic (?evs ! i) = Some (regularise_historic d))"
      using brow hrow lb lh by simp
    then have "\<forall>i < ?n. (\<exists>d. topk_smallest_last
                 (dissimilarity (pairwise_cosine_similarity [embeddings ! i] embeddings)) ?kb = Inr [d]
               \<and> batch (?evs ! i) = Some (regularise_batch d))
            \<and> (case historic (?evs ! i) of
                  None \<Rightarrow> length (historic_embeddings self)
                            < fst (history_range self) + history_reward_bottom_k self
                | Some h \<Rightarrow>
                    (\<exists>d. topk_smallest_last
                            (dissimilarity (pairwise_cosine_similarity [embeddings ! i] ?w)) ?kh = Inr [d]
                         \<and> h = regularise_historic d))"
      by fastforce
    moreover have "length ?evs = ?n" using lb lh by simp
    ultimately show ?thesis using ev by (intro exI [of _ ?evs]) (simp del: nth_map)
  qed
qed

theorem one_event_per_completion_in_order_witness:
  "[''cat'', ''cat'', ''dog''] \<noteq> []
   \<and> (\<lambda>sentences. Inr (map (\<lambda>s. if s = ''cat'' then [1, 0] else [0, 1]) sentences))
        [''cat'', ''cat'', ''dog''] = (Inr [[1, 0], [1, 0], [0, 1]] :: error + vec list)
   \<and> length [[1, 0], [1, 0], [0, 1 :: real]] = length [''cat'', ''cat'', ''dog'']
   \<and> 0 < reward_bottom_k init \<and> 0 < history_reward_bottom_k init
   \<and> get_rewards (\<lambda>sentences. Inr (map (\<lambda>s. if s = ''cat'' then [1, 0] else [0, 1]) sentences))
        init ''p'' [''cat'', ''cat'', ''dog''] ''n'' =
       Inr (RewardEvents
              [\<lparr> reward = 1 / (1 + exp 4), historic = None, batch = Some (1 / (1 + exp 4)) \<rparr>,
               \<lparr> reward = 1 / (1 + exp 4), historic = None, batch = Some (1 / (1 + exp 4)) \<rparr>,
               \<lparr> reward = 1 / (1 + exp (- 36)), historic = None,
                  batch = Some (1 / (1 + exp (- 36))) \<rparr>],
            init\<lparr>historic_embeddings := [[1, 0], [0, 1]]\<rparr>)"
  using one_event_per_completion_in_order [of "[''cat'', ''cat'', ''dog'']"
      "\<lambda>sentences. Inr (map (\<lambda>s. if s = ''cat'' then [1, 0] else [0, 1]) sentences)"
      "[[1, 0], [1, 0], [0, 1]]" init "''p''" "''n''"]
  by (simp add: eval_defs)

text \<open>
  C9. \<^verbatim>\<open>normalize_rewards\<close> keeps the number of rewards and maps each reward to 1 when it
  is strictly greater than the boundary and to 0 otherwise. With the boundary 0.5 of a
  fresh model, the rewards 0.3, 0.6, 0.5 become 0, 1, 0.
\<close>

theorem normalize_rewards_binarizes:
  "length (normalize_rewards self raw_rewards) = length raw_rewards
   \<and> (\<forall>i < length raw_rewards.
         normalize_rewards self raw_rewards ! i =
           (if raw_rewards ! i > boundary self then 1 else 0))
   \<and> boundary init = 0.5
   \<and> normalize_rewards init [0.3, 0.6, 0.5] = [0, 1, 0]"
  by (simp add: normalize_rewards_def init_def)

theorem normalize_rewards_binarizes_witness:
  "(1::nat) < length [0.3, 0.6, 0.5 :: real] \<and> normalize_rewards init [0.3, 0.6, 0.5] ! 1 = 1
   \<and> normalize_rewards init [0.3, 0.6, 0.5] ! 2 = 0"
  using normalize_rewards_binarizes [of init "[0.3, 0.6, 0.5]"]
  by (simp add: init_def)



end
